theory Spec2Isabelle
  imports Main
begin

section \<open>Strings and bytes\<close>

text \<open>
  The server is \<^verbatim>\<open>src/server.py\<close>: a subclass \<^verbatim>\<open>MorningRoutineHandler\<close> of the Python
  standard library's \<^verbatim>\<open>http.server.SimpleHTTPRequestHandler\<close> and a \<^verbatim>\<open>main\<close> function.
  Python \<^verbatim>\<open>str\<close> and \<^verbatim>\<open>bytes\<close> values are both modelled as \<^typ>\<open>string\<close>; text outside ASCII
  is written as its UTF-8 bytes.
\<close>

type_synonym bytes = string

definition endswith :: "string \<Rightarrow> string \<Rightarrow> bool" where
  \<comment> \<open>Python's \<^verbatim>\<open>s.endswith(suf)\<close>.\<close>
  "endswith s suf \<longleftrightarrow>
     length suf \<le> length s \<and> drop (length s - length suf) s = suf"

definition lower_char :: "char \<Rightarrow> char" where
  "lower_char c =
     (case map_of (zip ''ABCDEFGHIJKLMNOPQRSTUVWXYZ'' ''abcdefghijklmnopqrstuvwxyz'') c of
        Some d \<Rightarrow> d
      | None \<Rightarrow> c)"

definition lower :: "string \<Rightarrow> string" where
  \<comment> \<open>Python's \<^verbatim>\<open>s.lower()\<close> on ASCII text.\<close>
  "lower s = map lower_char s"

fun str_nat :: "nat \<Rightarrow> string" where
  \<comment> \<open>Python's \<^verbatim>\<open>str(n)\<close> and the \<^verbatim>\<open>%d\<close> format for a natural number.\<close>
  "str_nat n =
     (if n < 10 then [''0123456789'' ! n]
      else str_nat (n div 10) @ [''0123456789'' ! (n mod 10)])"

declare str_nat.simps [simp del]

definition html_escape :: "string \<Rightarrow> string" where
  \<comment> \<open>\<^verbatim>\<open>html.escape(s, quote=False)\<close>.\<close>
  "html_escape s =
     concat (map (\<lambda>c. if c = CHR ''&'' then ''&amp;''
                       else if c = CHR ''<'' then ''&lt;''
                       else if c = CHR ''>'' then ''&gt;'' else [c]) s)"

section \<open>The connection and the request handler's state\<close>

text \<open>
  What the handler writes to the connection (\<^verbatim>\<open>self.wfile\<close>) is kept as the list of the
  writes, in order. \<^verbatim>\<open>Head ls\<close> is one flush of the header buffer: the lines \<open>ls\<close> followed by
  the blank line that ends a header section. \<^verbatim>\<open>Data b\<close> is one write of the bytes \<open>b\<close>.
\<close>

datatype hline = StatusLine string nat string | HeaderLine string string

datatype chunk = Head "hline list" | Data bytes

datatype exn = FileNotFoundError | IsADirectoryError

text \<open>
  The fields of a request handler that the code reads or writes after the request line has
  been parsed. \<open>raised\<close> records an exception that leaves \<^verbatim>\<open>do_GET\<close> uncaught.
\<close>

record handler =
  command :: string
  path :: string
  request_version :: string
  close_connection :: bool
  headers_buffer :: "hline list"
  wfile :: "chunk list"
  raised :: "exn option"

definition new_request :: "string \<Rightarrow> string \<Rightarrow> string \<Rightarrow> handler" where
  \<comment> \<open>The handler after \<^verbatim>\<open>parse_request\<close> accepted the request line
      \<^verbatim>\<open>command path version\<close>: nothing buffered, nothing written. A request line of two
      words, \<^verbatim>\<open>GET path\<close>, is accepted too, and its version is \<^verbatim>\<open>HTTP/0.9\<close>.\<close>
  "new_request c p v =
     \<lparr>command = c, path = p, request_version = v, close_connection = True,
      headers_buffer = [], wfile = [], raised = None\<rparr>"

datatype node = Missing | File bytes | Dir

text \<open>
  The platform the handler runs on: the file system below the working directory and the
  library functions whose results are taken as given (the server and date strings, path
  translation, MIME type guessing, the cache check on \<^verbatim>\<open>If-Modified-Since\<close>, directory
  listings, \<^verbatim>\<open>repr\<close>).
\<close>

record env =
  fs :: "string \<Rightarrow> node"
  version_string :: string
  date_time_string :: string
  translate_path :: "string \<Rightarrow> string"
  url_path :: "string \<Rightarrow> string"
  redirect_url :: "string \<Rightarrow> string"
  guess_type :: "string \<Rightarrow> string"
  last_modified :: "string \<Rightarrow> string"
  not_modified :: "string \<Rightarrow> bool"
  list_dir :: "string \<Rightarrow> string \<Rightarrow> bytes option"
  fs_encoding :: string
  repr :: "string \<Rightarrow> string"

definition open_rb :: "env \<Rightarrow> string \<Rightarrow> exn + bytes" where
  \<comment> \<open>\<^verbatim>\<open>open(name, 'rb')\<close> followed by \<^verbatim>\<open>read()\<close>.\<close>
  "open_rb e name =
     (case fs e name of
        File b \<Rightarrow> Inr b
      | Missing \<Rightarrow> Inl FileNotFoundError
      | Dir \<Rightarrow> Inl IsADirectoryError)"

section \<open>The methods of \<^verbatim>\<open>BaseHTTPRequestHandler\<close> that the server calls\<close>

definition protocol_version :: string where
  "protocol_version = ''HTTP/1.0''"

definition error_content_type :: string where
  "error_content_type = ''text/html;charset=utf-8''"

definition responses :: "nat \<Rightarrow> (string \<times> string) option" where
  \<comment> \<open>The entries of the table \<^verbatim>\<open>responses\<close> (from \<^verbatim>\<open>http.HTTPStatus\<close>) for the status
      codes that these handlers send: the short and the long message.\<close>
  "responses code =
     (if code = 200 then Some (''OK'', ''Request fulfilled, document follows'')
      else if code = 301
        then Some (''Moved Permanently'', ''Object moved permanently -- see URI list'')
      else if code = 304
        then Some (''Not Modified'', ''Document has not changed since given time'')
      else if code = 404 then Some (''Not Found'', ''Nothing matches the given URI'')
      else if code = 501
        then Some (''Not Implemented'', ''Server does not support this operation'')
      else None)"

definition error_message_format :: "nat \<Rightarrow> string \<Rightarrow> string \<Rightarrow> bytes" where
  \<comment> \<open>\<^verbatim>\<open>DEFAULT_ERROR_MESSAGE\<close> filled in with the code, the message and the explanation.\<close>
  "error_message_format code message explain =
     ''<!DOCTYPE HTML>'' @ [CHR 0x0A]
       @ ''<html lang='' @ [CHR 0x22] @ ''en'' @ [CHR 0x22] @ ''>'' @ [CHR 0x0A]
       @ ''    <head>'' @ [CHR 0x0A]
       @ ''        <meta charset='' @ [CHR 0x22] @ ''utf-8'' @ [CHR 0x22] @ ''>'' @ [CHR 0x0A]
       @ ''        <title>Error response</title>'' @ [CHR 0x0A]
       @ ''    </head>'' @ [CHR 0x0A]
       @ ''    <body>'' @ [CHR 0x0A]
       @ ''        <h1>Error response</h1>'' @ [CHR 0x0A]
       @ ''        <p>Error code: ''
       @ str_nat code
       @ ''</p>'' @ [CHR 0x0A]
       @ ''        <p>Message: ''
       @ message
       @ ''.</p>'' @ [CHR 0x0A]
       @ ''        <p>Error code explanation: ''
       @ str_nat code
       @ '' - ''
       @ explain
       @ ''.</p>'' @ [CHR 0x0A]
       @ ''    </body>'' @ [CHR 0x0A]
       @ ''</html>'' @ [CHR 0x0A]"

definition send_response_only :: "nat \<Rightarrow> string option \<Rightarrow> handler \<Rightarrow> handler" where
  "send_response_only code message s =
     (if request_version s \<noteq> ''HTTP/0.9'' then
        (let msg = (case message of
                      Some m \<Rightarrow> m
                    | None \<Rightarrow> (case responses code of Some (short, long) \<Rightarrow> short | None \<Rightarrow> []))
         in s\<lparr>headers_buffer := headers_buffer s @ [StatusLine protocol_version code msg]\<rparr>)
      else s)"

definition send_header :: "string \<Rightarrow> string \<Rightarrow> handler \<Rightarrow> handler" where
  "send_header keyword val s =
     (let s1 = (if request_version s \<noteq> ''HTTP/0.9''
                then s\<lparr>headers_buffer := headers_buffer s @ [HeaderLine keyword val]\<rparr> else s)
      in if lower keyword = ''connection'' then
           (if lower val = ''close'' then s1\<lparr>close_connection := True\<rparr>
            else if lower val = ''keep-alive'' then s1\<lparr>close_connection := False\<rparr>
            else s1)
         else s1)"

definition send_response :: "env \<Rightarrow> nat \<Rightarrow> string option \<Rightarrow> handler \<Rightarrow> handler" where
  \<comment> \<open>The call of \<^verbatim>\<open>log_request\<close> writes to the console only and is left out.\<close>
  "send_response e code message s =
     send_header ''Date'' (date_time_string e)
       (send_header ''Server'' (version_string e) (send_response_only code message s))"

definition base_end_headers :: "handler \<Rightarrow> handler" where
  \<comment> \<open>\<^verbatim>\<open>BaseHTTPRequestHandler.end_headers\<close> with its \<^verbatim>\<open>flush_headers\<close>.\<close>
  "base_end_headers s =
     (if request_version s \<noteq> ''HTTP/0.9''
      then s\<lparr>wfile := wfile s @ [Head (headers_buffer s)], headers_buffer := []\<rparr>
      else s)"

definition wfile_write :: "bytes \<Rightarrow> handler \<Rightarrow> handler" where
  "wfile_write b s = s\<lparr>wfile := wfile s @ [Data b]\<rparr>"

definition send_error ::
  "(handler \<Rightarrow> handler) \<Rightarrow> env \<Rightarrow> nat \<Rightarrow> string option \<Rightarrow> handler \<Rightarrow> handler" where
  \<comment> \<open>\<open>eh\<close> is the \<^verbatim>\<open>end_headers\<close> of the handler's class, which \<^verbatim>\<open>send_error\<close> calls
      through \<^verbatim>\<open>self\<close>.\<close>
  "send_error eh e code message s =
     (let (shortmsg, longmsg) =
            (case responses code of Some p \<Rightarrow> p | None \<Rightarrow> (''???'', ''???''));
          msg = (case message of None \<Rightarrow> shortmsg | Some m \<Rightarrow> m);
          s1 = send_header ''Connection'' ''close'' (send_response e code (Some msg) s);
          body = (if code \<ge> 200 \<and> code \<noteq> 204 \<and> code \<noteq> 205 \<and> code \<noteq> 304
                  then Some (error_message_format code (html_escape msg) (html_escape longmsg))
                  else None);
          s2 = (case body of
                  Some b \<Rightarrow> send_header ''Content-Length'' (str_nat (length b))
                              (send_header ''Content-Type'' error_content_type s1)
                | None \<Rightarrow> s1);
          s3 = eh s2
      in case body of
           Some b \<Rightarrow> (if command s3 \<noteq> ''HEAD'' \<and> b \<noteq> [] then wfile_write b s3 else s3)
         | None \<Rightarrow> s3)"

section \<open>The methods of \<^verbatim>\<open>SimpleHTTPRequestHandler\<close>: default static file serving\<close>

text \<open>
  The base class of the handler. Each method takes \<open>eh\<close>, the \<^verbatim>\<open>end_headers\<close> that a call
  through \<^verbatim>\<open>self\<close> reaches: \<open>base_end_headers\<close> in the base class itself, the override below
  in \<^verbatim>\<open>MorningRoutineHandler\<close>. \<open>translate_path\<close>, \<open>guess_type\<close> and the listing's HTML are
  the platform's; \<open>not_modified e p\<close> says that the request's \<^verbatim>\<open>If-Modified-Since\<close> check
  succeeds for the file \<open>p\<close>. A method that returns a file object returns the file's bytes.
\<close>

definition index_pages :: "string list" where
  "index_pages = [''index.html'', ''index.htm'']"

definition os_path_join :: "string \<Rightarrow> string \<Rightarrow> string" where
  \<comment> \<open>\<^verbatim>\<open>os.path.join(a, b)\<close> for a relative name \<open>b\<close>.\<close>
  "os_path_join a b = (if a = [] \<or> endswith a ''/'' then a @ b else a @ ''/'' @ b)"

definition isfile :: "env \<Rightarrow> string \<Rightarrow> bool" where
  "isfile e p = (case fs e p of File b \<Rightarrow> True | _ \<Rightarrow> False)"

definition list_directory ::
  "(handler \<Rightarrow> handler) \<Rightarrow> env \<Rightarrow> string \<Rightarrow> handler \<Rightarrow> handler \<times> bytes option" where
  "list_directory eh e p s =
     (case list_dir e (path s) p of
        None \<Rightarrow> (send_error eh e 404 (Some ''No permission to list directory'') s, None)
      | Some encoded \<Rightarrow>
          (eh (send_header ''Content-Length'' (str_nat (length encoded))
                (send_header ''Content-type'' (''text/html; charset='' @ fs_encoding e)
                  (send_response e 200 None s))),
           Some encoded))"

definition serve_file ::
  "(handler \<Rightarrow> handler) \<Rightarrow> env \<Rightarrow> string \<Rightarrow> handler \<Rightarrow> handler \<times> bytes option" where
  \<comment> \<open>The part of \<^verbatim>\<open>send_head\<close> from \<^verbatim>\<open>ctype = self.guess_type(path)\<close> on.\<close>
  "serve_file eh e p s =
     (let ctype = guess_type e p in
      if endswith p ''/'' then (send_error eh e 404 (Some ''File not found'') s, None)
      else case fs e p of
             File b \<Rightarrow>
               (if not_modified e p then (eh (send_response e 304 None s), None)
                else (eh (send_header ''Last-Modified'' (last_modified e p)
                           (send_header ''Content-Length'' (str_nat (length b))
                             (send_header ''Content-type'' ctype
                               (send_response e 200 None s)))),
                      Some b))
           | _ \<Rightarrow> (send_error eh e 404 (Some ''File not found'') s, None))"

definition send_head ::
  "(handler \<Rightarrow> handler) \<Rightarrow> env \<Rightarrow> handler \<Rightarrow> handler \<times> bytes option" where
  "send_head eh e s =
     (let p = translate_path e (path s) in
      if fs e p = Dir then
        (if \<not> endswith (url_path e (path s)) ''/'' then
           (eh (send_header ''Content-Length'' ''0''
                 (send_header ''Location'' (redirect_url e (path s))
                   (send_response e 301 None s))),
            None)
         else case find (isfile e) (map (os_path_join p) index_pages) of
                Some index \<Rightarrow> serve_file eh e index s
              | None \<Rightarrow> list_directory eh e p s)
      else serve_file eh e p s)"

definition simple_do_GET :: "(handler \<Rightarrow> handler) \<Rightarrow> env \<Rightarrow> handler \<Rightarrow> handler" where
  \<comment> \<open>\<^verbatim>\<open>SimpleHTTPRequestHandler.do_GET\<close>; \<^verbatim>\<open>copyfile\<close> writes the file to \<^verbatim>\<open>wfile\<close>.\<close>
  "simple_do_GET eh e s =
     (case send_head eh e s of
        (s', Some b) \<Rightarrow> wfile_write b s'
      | (s', None) \<Rightarrow> s')"

definition simple_do_HEAD :: "(handler \<Rightarrow> handler) \<Rightarrow> env \<Rightarrow> handler \<Rightarrow> handler" where
  "simple_do_HEAD eh e s = fst (send_head eh e s)"

section \<open>\<^verbatim>\<open>MorningRoutineHandler\<close>\<close>

definition end_headers :: "handler \<Rightarrow> handler" where
  \<comment> \<open>\<^verbatim>\<open>MorningRoutineHandler.end_headers\<close>, lines 19 to 34.\<close>
  "end_headers s =
     (let s1 = send_header ''Cache-Control'' ''no-cache'' s;
          s2 = send_header ''Access-Control-Allow-Origin'' ''*'' s1;
          s3 = send_header ''Access-Control-Allow-Methods'' ''GET, POST, OPTIONS'' s2;
          s4 = send_header ''Access-Control-Allow-Headers'' ''Content-Type'' s3;
          s5 = (if endswith (path s4) ''.js''
                  then send_header ''Content-Type'' ''application/javascript'' s4
                else if endswith (path s4) ''.json''
                  then send_header ''Content-Type'' ''application/json'' s4
                else if endswith (path s4) ''.png''
                  then send_header ''Content-Type'' ''image/png'' s4
                else s4)
      in base_end_headers s5)"

definition do_GET :: "env \<Rightarrow> handler \<Rightarrow> handler" where
  \<comment> \<open>\<^verbatim>\<open>MorningRoutineHandler.do_GET\<close>, lines 36 to 69. An exception of \<^verbatim>\<open>open\<close> other than
      \<^verbatim>\<open>FileNotFoundError\<close> is not caught.\<close>
  "do_GET e s0 =
     (let s = (if path s0 = ''/'' then s0\<lparr>path := ''/index.html''\<rparr> else s0) in
      if path s = ''/sw.js'' then
        (let s1 = send_response e 200 None s;
             s2 = send_header ''Content-Type'' ''application/javascript'' s1;
             s3 = send_header ''Service-Worker-Allowed'' ''/'' s2;
             s4 = end_headers s3
         in case open_rb e ''sw.js'' of
              Inr b \<Rightarrow> wfile_write b s4
            | Inl FileNotFoundError \<Rightarrow> send_error end_headers e 404 None s4
            | Inl err \<Rightarrow> s4\<lparr>raised := Some err\<rparr>)
      else if path s = ''/manifest.json'' then
        (let s1 = send_response e 200 None s;
             s2 = send_header ''Content-Type'' ''application/manifest+json'' s1;
             s3 = end_headers s2
         in case open_rb e ''manifest.json'' of
              Inr b \<Rightarrow> wfile_write b s3
            | Inl FileNotFoundError \<Rightarrow> send_error end_headers e 404 None s3
            | Inl err \<Rightarrow> s3\<lparr>raised := Some err\<rparr>)
      else simple_do_GET end_headers e s)"

section \<open>Dispatch on the request method\<close>

text \<open>
  \<^verbatim>\<open>handle_one_request\<close> after the request line has been parsed: the method
  \<^verbatim>\<open>'do_' + self.command\<close> is called when the class has it, and a 501 error is sent
  otherwise. Both classes have \<^verbatim>\<open>do_GET\<close> and \<^verbatim>\<open>do_HEAD\<close> and no other such method.
\<close>

definition handle_method ::
  "(handler \<Rightarrow> handler) \<Rightarrow> (env \<Rightarrow> handler \<Rightarrow> handler) \<Rightarrow> env \<Rightarrow> handler \<Rightarrow> handler" where
  "handle_method eh get e s =
     (if command s = ''GET'' then get e s
      else if command s = ''HEAD'' then simple_do_HEAD eh e s
      else send_error eh e 501
             (Some (''Unsupported method ('' @ repr e (command s) @ '')'')) s)"

definition simple_handler :: "env \<Rightarrow> handler \<Rightarrow> handler" where
  \<comment> \<open>A request served by \<^verbatim>\<open>SimpleHTTPRequestHandler\<close> itself.\<close>
  "simple_handler e s = handle_method base_end_headers (simple_do_GET base_end_headers) e s"

definition morning_routine_handler :: "env \<Rightarrow> handler \<Rightarrow> handler" where
  \<comment> \<open>A request served by \<^verbatim>\<open>MorningRoutineHandler\<close>.\<close>
  "morning_routine_handler e s = handle_method end_headers do_GET e s"

section \<open>The response as a client reads it\<close>

text \<open>
  The client reads the first header section as the response's status line and header fields,
  and everything that follows on the connection as the body.
\<close>

definition render_line :: "hline \<Rightarrow> bytes" where
  "render_line l =
     (case l of
        StatusLine v code msg \<Rightarrow> v @ '' '' @ str_nat code @ '' '' @ msg @ [CHR 0x0D, CHR 0x0A]
      | HeaderLine k v \<Rightarrow> k @ '': '' @ v @ [CHR 0x0D, CHR 0x0A])"

definition render :: "chunk \<Rightarrow> bytes" where
  "render c =
     (case c of
        Head ls \<Rightarrow> concat (map render_line ls) @ [CHR 0x0D, CHR 0x0A]
      | Data b \<Rightarrow> b)"

definition resp_status :: "chunk list \<Rightarrow> nat option" where
  "resp_status w = (case w of Head (StatusLine v code msg # ls) # rest \<Rightarrow> Some code | _ \<Rightarrow> None)"

definition header_fields :: "hline list \<Rightarrow> (string \<times> string) list" where
  "header_fields ls = concat (map (\<lambda>l. case l of HeaderLine k v \<Rightarrow> [(k, v)] | _ \<Rightarrow> []) ls)"

definition resp_headers :: "chunk list \<Rightarrow> (string \<times> string) list" where
  "resp_headers w = (case w of Head ls # rest \<Rightarrow> header_fields ls | _ \<Rightarrow> [])"

definition header_values :: "string \<Rightarrow> chunk list \<Rightarrow> string list" where
  \<comment> \<open>The values of every field of that name, in order; field names ignore case.\<close>
  "header_values name w =
     map snd (filter (\<lambda>(k, v). lower k = lower name) (resp_headers w))"

definition resp_body :: "chunk list \<Rightarrow> bytes" where
  "resp_body w =
     (case w of Head ls # rest \<Rightarrow> concat (map render rest) | _ \<Rightarrow> concat (map render w))"

section \<open>Startup: \<^verbatim>\<open>main\<close>\<close>

text \<open>
  \<^verbatim>\<open>main\<close> acts on the console, the file system, the port and the browser. Its run is the list
  of these actions in order, with how it ends. \<^verbatim>\<open>Print x\<close> is one call \<^verbatim>\<open>print(x)\<close>.
  The platform decides which paths exist, whether the server socket can be bound (an
  \<^verbatim>\<open>OSError\<close> with its \<^verbatim>\<open>errno\<close> and its text otherwise), whether opening the browser raises,
  and how \<^verbatim>\<open>serve_forever\<close> ends, if it does.
\<close>

datatype event = Print string | Bind nat | OpenBrowser string | ServeForever

datatype oserror = OSError int string

datatype serving = Forever | KeyboardInterrupt | ServeError oserror

datatype ending = Returned | Blocked

record platform =
  exists :: "string \<Rightarrow> bool"
  bind_error :: "oserror option"
  browser_raises :: bool
  serve :: serving

definition PORT :: nat where
  "PORT = 8000"

definition required_files :: "string list" where
  "required_files = [''index.html'', ''styles.css'', ''app.js'', ''manifest.json'', ''sw.js'']"

definition banner :: "string list" where
  \<comment> \<open>The arguments of the calls of \<^verbatim>\<open>print\<close> in lines 89 to 109.\<close>
  "banner =
     [[CHR 0xF0, CHR 0x9F, CHR 0x8C, CHR 0x85] @ '' Morning Routine Tracker - Development Server'',
      replicate 50 (CHR ''=''),
      ''Starting server on port '' @ str_nat PORT @ ''...'',
      ''Access your app at: http://localhost:'' @ str_nat PORT,
      [CHR 0x0A, CHR 0xF0, CHR 0x9F, CHR 0x93, CHR 0xB1] @ '' PWA Features:'',
      ''   '' @ [CHR 0xE2, CHR 0x9C, CHR 0x85] @ '' Service Worker for offline functionality'',
      ''   '' @ [CHR 0xE2, CHR 0x9C, CHR 0x85] @ '' Web App Manifest for installation'',
      ''   '' @ [CHR 0xE2, CHR 0x9C, CHR 0x85] @ '' Responsive design for mobile/desktop'',
      ''   '' @ [CHR 0xE2, CHR 0x9C, CHR 0x85] @ '' Local data storage'',
      [CHR 0x0A, CHR 0xF0, CHR 0x9F, CHR 0xA7, CHR 0xA0] @ '' Neuroscience Features:'',
      ''   '' @ [CHR 0xE2, CHR 0x9C, CHR 0x85] @ '' 5-4-3-2-1 Activation Counter'',
      ''   '' @ [CHR 0xE2, CHR 0x9C, CHR 0x85] @ '' Circadian Rhythm Optimization'',
      ''   '' @ [CHR 0xE2, CHR 0x9C, CHR 0x85] @ '' Dopamine Reward System'',
      ''   '' @ [CHR 0xE2, CHR 0x9C, CHR 0x85] @ '' Habit Formation Tracking'',
      [CHR 0x0A, CHR 0xF0, CHR 0x9F, CHR 0x92, CHR 0xA1] @ '' Usage Tips:'',
      ''   - Use Chrome/Edge for best PWA experience'',
      ''   - Click '' @ [CHR 0x27] @ ''Install App'' @ [CHR 0x27] @ '' in browser for native feel'',
      ''   - Enable notifications for routine reminders'',
      ''   - Works offline after first visit'',
      [CHR 0x0A] @ ''Press Ctrl+C to stop the server'',
      replicate 50 (CHR ''='')]"

definition on_oserror :: "oserror \<Rightarrow> event list" where
  \<comment> \<open>The handler \<^verbatim>\<open>except OSError as e\<close>, lines 128 to 133.\<close>
  "on_oserror err =
     (case err of OSError errno text \<Rightarrow>
        if errno = 48 then
          [Print ([CHR 0xE2, CHR 0x9D, CHR 0x8C] @ '' Port '' @ str_nat PORT
                    @ '' is already in use.''),
           Print ''Try closing other applications or use a different port.'']
        else
          [Print ([CHR 0xE2, CHR 0x9D, CHR 0x8C] @ '' Error starting server: '' @ text)])"

definition main :: "platform \<Rightarrow> event list \<times> ending" where
  "main pf =
     (let missing_files = filter (\<lambda>f. \<not> exists pf f) required_files in
      if missing_files \<noteq> [] then
        ([Print ([CHR 0xE2, CHR 0x9D, CHR 0x8C] @ '' Missing required files:'')]
           @ map (\<lambda>file. Print (''   - '' @ file)) missing_files
           @ [Print ([CHR 0x0A] @ ''Please ensure all files are in the current directory.'')],
         Returned)
      else
        (let warning =
               (if \<not> exists pf ''icons'' then
                  [Print ([CHR 0xE2, CHR 0x9A, CHR 0xA0, CHR 0xEF, CHR 0xB8, CHR 0x8F]
                     @ ''  Warning: '' @ [CHR 0x27] @ ''icons'' @ [CHR 0x27]
                     @ '' directory not found. PWA icons may not load properly.'')]
                else []);
             before = warning @ map Print banner @ [Bind PORT]
         in case bind_error pf of
              Some err \<Rightarrow> (before @ on_oserror err, Returned)
            | None \<Rightarrow>
                (let started = before
                       @ [Print ([CHR 0xE2, CHR 0x9C, CHR 0x85] @ '' Server started successfully!''),
                          Print ([CHR 0xF0, CHR 0x9F, CHR 0x8C, CHR 0x90] @ '' Open http://localhost:''
                                   @ str_nat PORT @ '' in your browser''),
                          OpenBrowser (''http://localhost:'' @ str_nat PORT),
                          (if browser_raises pf then
                             Print ([CHR 0xF0, CHR 0x9F, CHR 0x94, CHR 0x8D]
                               @ '' Please manually open http://localhost:{PORT} in your browser'')
                           else
                             Print ([CHR 0xF0, CHR 0x9F, CHR 0x9A, CHR 0x80]
                               @ '' Opening browser automatically...'')),
                          ServeForever]
                 in case serve pf of
                      Forever \<Rightarrow> (started, Blocked)
                    | KeyboardInterrupt \<Rightarrow>
                        (started
                           @ [Print ([CHR 0x0A, CHR 0x0A, CHR 0xF0, CHR 0x9F, CHR 0x9B, CHR 0x91]
                                @ '' Server stopped by user''),
                              Print (''Thanks for using Morning Routine Tracker! ''
                                @ [CHR 0xF0, CHR 0x9F, CHR 0x8C, CHR 0x85])],
                         Returned)
                    | ServeError err \<Rightarrow> (started @ on_oserror err, Returned))))"

section \<open>Properties of responses and example platforms\<close>

definition pwa_headers :: "hline list" where
  \<comment> \<open>The four header lines of lines 21 to 24.\<close>
  "pwa_headers =
     [HeaderLine ''Cache-Control'' ''no-cache'',
      HeaderLine ''Access-Control-Allow-Origin'' ''*'',
      HeaderLine ''Access-Control-Allow-Methods'' ''GET, POST, OPTIONS'',
      HeaderLine ''Access-Control-Allow-Headers'' ''Content-Type'']"

fun pwa_ok :: "chunk \<Rightarrow> bool" where
  \<comment> \<open>A header section carries the four header lines; a write of data is not concerned.\<close>
  "pwa_ok (Head ls) = (set pwa_headers \<subseteq> set ls)"
| "pwa_ok (Data b) = True"

definition sound :: "handler \<Rightarrow> bool" where
  \<comment> \<open>Every header section written to the connection so far carries the four lines.\<close>
  "sound s = list_all pwa_ok (wfile s)"

definition extension_header :: "string \<Rightarrow> hline list" where
  \<comment> \<open>The line that the chain of tests in lines 27 to 32 adds for the path \<open>p\<close>, if any.\<close>
  "extension_header p =
     (if endswith p ''.js'' then [HeaderLine ''Content-Type'' ''application/javascript'']
      else if endswith p ''.json'' then [HeaderLine ''Content-Type'' ''application/json'']
      else if endswith p ''.png'' then [HeaderLine ''Content-Type'' ''image/png'']
      else [])"

definition same_request :: "handler \<Rightarrow> handler \<Rightarrow> bool" where
  \<comment> \<open>\<open>t\<close> is \<open>s\<close> with other buffered header lines at most: the same request, the same
      bytes on the connection.\<close>
  "same_request t s \<longleftrightarrow>
     wfile t = wfile s \<and> path t = path s \<and> request_version t = request_version s
       \<and> command t = command s"

definition once :: "(handler \<Rightarrow> handler) \<Rightarrow> handler \<Rightarrow> handler \<Rightarrow> bool" where
  \<comment> \<open>\<open>r\<close> comes from \<open>s\<close> by buffering header lines, one call of \<open>eh\<close> and at most
      one write of data after it.\<close>
  "once eh s r \<longleftrightarrow>
     (\<exists>t. same_request t s \<and> (r = eh t \<or> (\<exists>b. r = wfile_write b (eh t))))"

definition opens_with :: "string \<Rightarrow> handler \<Rightarrow> bool" where
  \<comment> \<open>The first write to the connection is a header section that ends with the four
      lines and the line for the path \<open>p\<close>.\<close>
  "opens_with p s =
     (\<exists>buf rest. wfile s = Head (buf @ pwa_headers @ extension_header p) # rest)"

definition not_found_page :: bytes where
  \<comment> \<open>The error page of \<^verbatim>\<open>send_error(404)\<close>.\<close>
  "not_found_page = error_message_format 404 ''Not Found'' ''Nothing matches the given URI''"

definition decorate :: "string \<Rightarrow> chunk \<Rightarrow> chunk" where
  \<comment> \<open>What the overridden \<^verbatim>\<open>end_headers\<close> adds to a header section for the path \<open>p\<close>.\<close>
  "decorate p c =
     (case c of
        Head ls \<Rightarrow> Head (ls @ pwa_headers @ extension_header p)
      | Data b \<Rightarrow> Data b)"

definition uniform :: "handler \<Rightarrow> ((handler \<Rightarrow> handler) \<Rightarrow> handler) \<Rightarrow> bool" where
  \<comment> \<open>A method \<open>F\<close>, run from \<open>s\<close>, buffers the same header lines, then calls its
      \<^verbatim>\<open>end_headers\<close> once and writes the same data, whichever \<^verbatim>\<open>end_headers\<close> it is
      given (one that leaves the request method alone).\<close>
  "uniform s F \<longleftrightarrow>
     (\<exists>t. same_request t s \<and>
        ((\<forall>eh. (\<forall>u. command (eh u) = command u) \<longrightarrow> F eh = eh t)
         \<or> (\<exists>b. \<forall>eh. (\<forall>u. command (eh u) = command u) \<longrightarrow> F eh = wfile_write b (eh t))))"

text \<open>
  An example platform for the concrete runs below: the working directory holds the files
  that \<open>files\<close> gives, named relative to it; a request path is translated by dropping the
  query string and the leading slash.
\<close>

definition example_env :: "(string \<Rightarrow> node) \<Rightarrow> env" where
  "example_env files =
     \<lparr>fs = files,
      version_string = ''SimpleHTTP/0.6 Python/3.12.3'',
      date_time_string = ''Wed, 04 Nov 2026 09:00:00 GMT'',
      translate_path = (\<lambda>p. drop 1 (takeWhile (\<lambda>c. c \<noteq> CHR ''?'') p)),
      url_path = (\<lambda>p. takeWhile (\<lambda>c. c \<noteq> CHR ''?'') p),
      redirect_url = (\<lambda>p. p @ ''/''),
      guess_type = (\<lambda>p. if endswith p ''.js'' then ''text/javascript''
                         else if endswith p ''.json'' then ''application/json''
                         else if endswith p ''.html'' then ''text/html''
                         else ''application/octet-stream''),
      last_modified = (\<lambda>p. ''Tue, 03 Nov 2026 09:00:00 GMT''),
      not_modified = (\<lambda>p. False),
      list_dir = (\<lambda>request_path p. None),
      fs_encoding = ''utf-8'',
      repr = (\<lambda>s. [CHR 0x27] @ s @ [CHR 0x27])\<rparr>"

definition app_files :: "string \<Rightarrow> node" where
  \<comment> \<open>A working directory with the five required files.\<close>
  "app_files name =
     (if name = ''index.html'' then File ''<!DOCTYPE html><title>Morning Routine</title>''
      else if name = ''styles.css'' then File ''body { margin: 0 }''
      else if name = ''app.js'' then File ''init();''
      else if name = ''manifest.json'' then File ''{}''
      else if name = ''sw.js'' then File ''self.skipWaiting();''
      else Missing)"

definition no_files :: "string \<Rightarrow> node" where
  \<comment> \<open>An empty working directory.\<close>
  "no_files name = Missing"

definition example_platform :: "(string \<Rightarrow> node) \<Rightarrow> oserror option \<Rightarrow> platform" where
  \<comment> \<open>A platform for \<open>main\<close> over the same files: the browser opens and the server is
      stopped from the keyboard.\<close>
  "example_platform files err =
     \<lparr>exists = (\<lambda>name. files name \<noteq> Missing),
      bind_error = err,
      browser_raises = False,
      serve = KeyboardInterrupt\<rparr>"

section \<open>What each method leaves unchanged, and what it writes\<close>

lemma send_header_frame [simp]:
  "wfile (send_header k v s) = wfile s"
  "path (send_header k v s) = path s"
  "command (send_header k v s) = command s"
  "request_version (send_header k v s) = request_version s"
  "raised (send_header k v s) = raised s"
  by (simp_all add: send_header_def Let_def)

lemma send_header_buffer [simp]:
  "headers_buffer (send_header k v s) =
     (if request_version s \<noteq> ''HTTP/0.9'' then headers_buffer s @ [HeaderLine k v]
      else headers_buffer s)"
  by (simp add: send_header_def Let_def)

lemma send_response_only_frame [simp]:
  "wfile (send_response_only c m s) = wfile s"
  "path (send_response_only c m s) = path s"
  "command (send_response_only c m s) = command s"
  "request_version (send_response_only c m s) = request_version s"
  "raised (send_response_only c m s) = raised s"
  by (simp_all add: send_response_only_def Let_def)

lemma send_response_frame [simp]:
  "wfile (send_response e c m s) = wfile s"
  "path (send_response e c m s) = path s"
  "command (send_response e c m s) = command s"
  "request_version (send_response e c m s) = request_version s"
  "raised (send_response e c m s) = raised s"
  by (simp_all add: send_response_def)

lemma wfile_write_frame [simp]:
  "wfile (wfile_write b s) = wfile s @ [Data b]"
  "path (wfile_write b s) = path s"
  "command (wfile_write b s) = command s"
  "request_version (wfile_write b s) = request_version s"
  by (simp_all add: wfile_write_def)

lemma end_headers_frame [simp]:
  "path (end_headers s) = path s"
  "command (end_headers s) = command s"
  "request_version (end_headers s) = request_version s"
  "raised (end_headers s) = raised s"
  by (simp_all add: end_headers_def base_end_headers_def Let_def)

lemma end_headers_wfile:
  "wfile (end_headers s) =
     (if request_version s \<noteq> ''HTTP/0.9''
      then wfile s @ [Head (headers_buffer s @ pwa_headers @ extension_header (path s))]
      else wfile s)"
  by (simp add: end_headers_def base_end_headers_def Let_def pwa_headers_def extension_header_def)

lemma end_headers_buffer [simp]:
  "request_version s \<noteq> ''HTTP/0.9'' \<Longrightarrow> headers_buffer (end_headers s) = []"
  by (simp add: end_headers_def base_end_headers_def Let_def)




lemma sound_send_header [simp]: "sound (send_header k v t) = sound t"
  by (simp add: sound_def)

lemma sound_send_response [simp]: "sound (send_response e c m t) = sound t"
  by (simp add: sound_def)

lemma sound_wfile_write [simp]: "sound (wfile_write b t) = sound t"
  by (simp add: sound_def)






lemma sound_path_update [simp]: "sound (s\<lparr>path := p\<rparr>) = sound s"
  by (simp add: sound_def)

lemma sound_raised_update [simp]: "sound (s\<lparr>raised := r\<rparr>) = sound s"
  by (simp add: sound_def)


lemma same_request_refl [simp]: "same_request s s"
  by (simp add: same_request_def)

lemma same_request_send_header [simp]: "same_request (send_header k v t) s = same_request t s"
  by (simp add: same_request_def)

lemma same_request_send_response [simp]:
  "same_request (send_response e c m t) s = same_request t s"
  by (simp add: same_request_def)

lemma send_error_once: "once eh s (send_error eh e code message s)"
proof -
  obtain shortmsg longmsg where
    r: "(case responses code of Some p \<Rightarrow> p | None \<Rightarrow> (''???'', ''???'')) = (shortmsg, longmsg)"
    by (cases "case responses code of Some p \<Rightarrow> p | None \<Rightarrow> (''???'', ''???'')") simp
  show ?thesis
  proof (cases "code \<ge> 200 \<and> code \<noteq> 204 \<and> code \<noteq> 205 \<and> code \<noteq> 304")
    case True
    then show ?thesis
      unfolding send_error_def Let_def r once_def
      by (auto simp del: split_paired_Ex intro!: exI)
  next
    case False
    then show ?thesis
      unfolding send_error_def Let_def r once_def
      by (auto simp del: split_paired_Ex intro!: exI)
  qed
qed

lemma onceI: "same_request t s \<Longrightarrow> once eh s (eh t)"
  by (auto simp add: once_def)


lemma list_directory_once:
  "once eh s (fst (list_directory eh e p s)) \<and>
   (snd (list_directory eh e p s) \<noteq> None \<longrightarrow>
      (\<exists>t. same_request t s \<and> fst (list_directory eh e p s) = eh t))"
  by (auto simp add: list_directory_def send_error_once split: option.splits intro!: onceI exI)

lemma serve_file_once:
  "once eh s (fst (serve_file eh e p s)) \<and>
   (snd (serve_file eh e p s) \<noteq> None \<longrightarrow>
      (\<exists>t. same_request t s \<and> fst (serve_file eh e p s) = eh t))"
  by (auto simp add: serve_file_def Let_def send_error_once split: node.splits intro!: onceI exI)

lemma send_head_once:
  "once eh s (fst (send_head eh e s)) \<and>
   (snd (send_head eh e s) \<noteq> None \<longrightarrow>
      (\<exists>t. same_request t s \<and> fst (send_head eh e s) = eh t))"
  using serve_file_once [of eh s e] list_directory_once [of eh s e]
  by (auto simp add: send_head_def Let_def split: option.splits intro!: onceI)

lemma simple_do_HEAD_once: "once eh s (simple_do_HEAD eh e s)"
  by (simp add: simple_do_HEAD_def send_head_once)




lemma opens_with_write [simp]: "opens_with p t \<Longrightarrow> opens_with p (wfile_write b t)"
  by (auto simp add: opens_with_def)

lemma once_path:
  assumes "once end_headers s r"
  shows "path r = path s"
  using assms by (auto simp add: once_def same_request_def)




lemma send_response_buffer:
  "request_version s \<noteq> ''HTTP/0.9'' \<Longrightarrow>
   headers_buffer (send_response e code None s) =
     headers_buffer s @ [StatusLine ''HTTP/1.0'' code (case responses code of Some (short, long) \<Rightarrow> short | None \<Rightarrow> []),
                        HeaderLine ''Server'' (version_string e), HeaderLine ''Date'' (date_time_string e)]"
  by (simp add: send_response_def send_response_only_def protocol_version_def)

lemma new_request_fields [simp]:
  "wfile (new_request c p v) = []"
  "headers_buffer (new_request c p v) = []"
  "path (new_request c p v) = p"
  "command (new_request c p v) = c"
  "request_version (new_request c p v) = v"
  by (simp_all add: new_request_def)


lemma manifest_present_wire:
  assumes "v \<noteq> ''HTTP/0.9''" and "fs e ''manifest.json'' = File b"
  shows "wfile (morning_routine_handler e (new_request ''GET'' ''/manifest.json'' v)) =
           [Head ([StatusLine ''HTTP/1.0'' 200 ''OK'',
                   HeaderLine ''Server'' (version_string e),
                   HeaderLine ''Date'' (date_time_string e),
                   HeaderLine ''Content-Type'' ''application/manifest+json'']
                  @ pwa_headers
                  @ [HeaderLine ''Content-Type'' ''application/json'']),
            Data b]"
  using assms
  by (simp add: morning_routine_handler_def handle_method_def do_GET_def Let_def open_rb_def
        end_headers_wfile send_response_buffer responses_def extension_header_def endswith_def)

lemmas view_defs =
  resp_status_def resp_headers_def header_values_def resp_body_def header_fields_def
  render_def pwa_headers_def lower_def lower_char_def

lemma error_page_nonempty: "error_message_format code message explain \<noteq> []"
  by (simp add: error_message_format_def)

lemma html_escape_plain [simp]:
  "html_escape ''Not Found'' = ''Not Found''"
  "html_escape ''Nothing matches the given URI'' = ''Nothing matches the given URI''"
  by (simp_all add: html_escape_def)

lemma send_error_404_wfile:
  assumes "request_version s \<noteq> ''HTTP/0.9''" and "command s \<noteq> ''HEAD''"
  shows "wfile (send_error end_headers e 404 None s) =
           wfile s @
           [Head (headers_buffer s @
                  [StatusLine ''HTTP/1.0'' 404 ''Not Found'',
                   HeaderLine ''Server'' (version_string e),
                   HeaderLine ''Date'' (date_time_string e),
                   HeaderLine ''Connection'' ''close'',
                   HeaderLine ''Content-Type'' ''text/html;charset=utf-8'',
                   HeaderLine ''Content-Length'' (str_nat (length not_found_page))]
                  @ pwa_headers @ extension_header (path s)),
            Data not_found_page]"
  using assms
  by (simp add: send_error_def Let_def responses_def end_headers_wfile send_response_def
        send_response_only_def protocol_version_def error_content_type_def
        error_page_nonempty not_found_page_def)

lemma sw_js_missing_wire:
  assumes "v \<noteq> ''HTTP/0.9''" and "fs e ''sw.js'' = Missing"
  shows "wfile (morning_routine_handler e (new_request ''GET'' ''/sw.js'' v)) =
           [Head ([StatusLine ''HTTP/1.0'' 200 ''OK'',
                   HeaderLine ''Server'' (version_string e),
                   HeaderLine ''Date'' (date_time_string e),
                   HeaderLine ''Content-Type'' ''application/javascript'',
                   HeaderLine ''Service-Worker-Allowed'' ''/'']
                  @ pwa_headers
                  @ [HeaderLine ''Content-Type'' ''application/javascript'']),
            Head ([StatusLine ''HTTP/1.0'' 404 ''Not Found'',
                   HeaderLine ''Server'' (version_string e),
                   HeaderLine ''Date'' (date_time_string e),
                   HeaderLine ''Connection'' ''close'',
                   HeaderLine ''Content-Type'' ''text/html;charset=utf-8'',
                   HeaderLine ''Content-Length'' (str_nat (length not_found_page))]
                  @ pwa_headers
                  @ [HeaderLine ''Content-Type'' ''application/javascript'']),
            Data not_found_page]"
  using assms
  by (simp add: morning_routine_handler_def handle_method_def do_GET_def Let_def open_rb_def
        send_error_404_wfile end_headers_wfile send_response_buffer responses_def
        extension_header_def endswith_def)



lemma uniformI: "same_request t s \<Longrightarrow> uniform s (\<lambda>eh. eh t)"
  by (auto simp add: uniform_def)

lemma uniform_writeI: "same_request t s \<Longrightarrow> uniform s (\<lambda>eh. wfile_write b (eh t))"
  unfolding uniform_def by blast

lemma send_error_uniform: "uniform s (\<lambda>eh. send_error eh e code message s)"
proof -
  obtain shortmsg longmsg where
    r: "(case responses code of Some p \<Rightarrow> p | None \<Rightarrow> (''???'', ''???'')) = (shortmsg, longmsg)"
    by (cases "case responses code of Some p \<Rightarrow> p | None \<Rightarrow> (''???'', ''???'')") simp
  define msg where "msg = (case message of None \<Rightarrow> shortmsg | Some m \<Rightarrow> m)"
  define s1 where "s1 = send_header ''Connection'' ''close'' (send_response e code (Some msg) s)"
  define page where "page = error_message_format code (html_escape msg) (html_escape longmsg)"
  define s2 where "s2 = send_header ''Content-Length'' (str_nat (length page))
                              (send_header ''Content-Type'' error_content_type s1)"
  have sr: "same_request s1 s" "same_request s2 s"
    by (simp_all add: s1_def s2_def)
  have c: "command s2 = command s" "command s1 = command s"
    by (simp_all add: s1_def s2_def)
  show ?thesis
  proof (cases "code \<ge> 200 \<and> code \<noteq> 204 \<and> code \<noteq> 205 \<and> code \<noteq> 304")
    case False
    then have "(\<lambda>eh. send_error eh e code message s) = (\<lambda>eh. eh s1)"
      unfolding send_error_def Let_def r
      by (auto simp add: s1_def msg_def fun_eq_iff)
    then show ?thesis
      using uniformI [OF sr(1)] by simp
  next
    case True
    show ?thesis
    proof (cases "command s \<noteq> ''HEAD'' \<and> page \<noteq> []")
      case w: True
      have "send_error eh e code message s = wfile_write page (eh s2)"
        if "\<forall>u. command (eh u) = command u" for eh
        using True w that c
        unfolding send_error_def Let_def r
        by (simp add: s1_def s2_def msg_def page_def)
      then show ?thesis
        unfolding uniform_def using sr(2) by blast
    next
      case w: False
      have "send_error eh e code message s = eh s2"
        if "\<forall>u. command (eh u) = command u" for eh
        using True w that c
        unfolding send_error_def Let_def r
        by (auto simp add: s1_def s2_def msg_def page_def)
      then show ?thesis
        unfolding uniform_def using sr(2) by blast
    qed
  qed
qed

lemma list_directory_uniform: "uniform s (\<lambda>eh. fst (list_directory eh e p s))"
  by (cases "list_dir e (path s) p")
     (simp_all add: list_directory_def send_error_uniform uniformI)

lemma serve_file_uniform: "uniform s (\<lambda>eh. fst (serve_file eh e p s))"
proof (cases "endswith p ''/''")
  case True
  then show ?thesis
    by (simp add: serve_file_def Let_def send_error_uniform)
next
  case False
  then show ?thesis
    by (cases "fs e p"; cases "not_modified e p")
       (simp_all add: serve_file_def Let_def send_error_uniform uniformI)
qed

lemma send_head_uniform: "uniform s (\<lambda>eh. fst (send_head eh e s))"
proof (cases "fs e (translate_path e (path s)) = Dir")
  case False
  then show ?thesis
    by (simp add: send_head_def Let_def serve_file_uniform)
next
  case True
  then show ?thesis
    by (cases "endswith (url_path e (path s)) ''/''";
        cases "find (isfile e) (map (os_path_join (translate_path e (path s))) index_pages)")
       (simp_all add: send_head_def Let_def serve_file_uniform list_directory_uniform uniformI)
qed

lemma other_methods_uniform:
  "command s \<noteq> ''GET'' \<Longrightarrow> uniform s (\<lambda>eh. handle_method eh (get eh) e s)"
  by (cases "command s = ''HEAD''")
     (simp_all add: handle_method_def simple_do_HEAD_def send_head_uniform send_error_uniform)

lemma base_end_headers_frame [simp]:
  "path (base_end_headers s) = path s"
  "command (base_end_headers s) = command s"
  "request_version (base_end_headers s) = request_version s"
  by (simp_all add: base_end_headers_def)

lemma uniform_decorate:
  assumes "uniform s F" and "wfile s = []"
  shows "wfile (F end_headers) = map (decorate (path s)) (wfile (F base_end_headers))"
proof -
  from assms(1) obtain t where t: "same_request t s"
    and alt: "(F end_headers = end_headers t \<and> F base_end_headers = base_end_headers t)
              \<or> (\<exists>b. F end_headers = wfile_write b (end_headers t)
                     \<and> F base_end_headers = wfile_write b (base_end_headers t))"
    unfolding uniform_def
    by (metis end_headers_frame(2) base_end_headers_frame(2))
  from t assms(2) have "wfile t = []" "path t = path s"
    by (simp_all add: same_request_def)
  then have "wfile (end_headers t) = map (decorate (path s)) (wfile (base_end_headers t))"
    by (simp add: end_headers_wfile base_end_headers_def decorate_def)
  with alt show ?thesis
    by (auto simp add: decorate_def)
qed

lemma example_env_fields [simp]:
  "fs (example_env files) = files"
  "version_string (example_env files) = ''SimpleHTTP/0.6 Python/3.12.3''"
  "date_time_string (example_env files) = ''Wed, 04 Nov 2026 09:00:00 GMT''"
  "translate_path (example_env files) p = drop 1 (takeWhile (\<lambda>c. c \<noteq> CHR ''?'') p)"
  "guess_type (example_env files) p =
     (if endswith p ''.js'' then ''text/javascript''
      else if endswith p ''.json'' then ''application/json''
      else if endswith p ''.html'' then ''text/html''
      else ''application/octet-stream'')"
  "last_modified (example_env files) p = ''Tue, 03 Nov 2026 09:00:00 GMT''"
  "not_modified (example_env files) p = False"
  by (simp_all add: example_env_def)

lemma head_sw_js_base_wire:
  "wfile (simple_handler (example_env app_files) (new_request ''HEAD'' ''/sw.js'' ''HTTP/1.1'')) =
     [Head [StatusLine ''HTTP/1.0'' 200 ''OK'',
            HeaderLine ''Server'' ''SimpleHTTP/0.6 Python/3.12.3'',
            HeaderLine ''Date'' ''Wed, 04 Nov 2026 09:00:00 GMT'',
            HeaderLine ''Content-type'' ''text/javascript'',
            HeaderLine ''Content-Length'' ''19'',
            HeaderLine ''Last-Modified'' ''Tue, 03 Nov 2026 09:00:00 GMT'']]"
  by (simp add: simple_handler_def handle_method_def simple_do_HEAD_def send_head_def
        serve_file_def Let_def app_files_def endswith_def base_end_headers_def
        send_response_buffer responses_def str_nat.simps)


lemma other_methods_path:
  assumes "command s \<noteq> ''GET''"
  shows "path (morning_routine_handler e s) = path s"
proof -
  have "once end_headers s (morning_routine_handler e s)"
    using assms
    by (simp add: morning_routine_handler_def handle_method_def simple_do_HEAD_once
          send_error_once)
  then show ?thesis
    by (rule once_path)
qed

lemma other_methods_wfile:
  assumes "command s \<noteq> ''GET''" and "wfile s = []"
  shows "wfile (morning_routine_handler e s)
           = map (decorate (path s)) (wfile (simple_handler e s))"
  using uniform_decorate [OF other_methods_uniform [OF assms(1), of simple_do_GET e] assms(2)]
    assms(1)
  by (simp add: morning_routine_handler_def simple_handler_def handle_method_def)





section \<open>Startup\<close>

lemma str_nat_PORT: "str_nat PORT = ''8000''"
  by (simp add: PORT_def str_nat.simps)

lemma rule_line:
  "replicate 50 (CHR ''='') = ''==================================================''"
  by code_simp

text \<open>
  Claim C6. When at least one of the five required files is absent from the working
  directory, \<open>main\<close> prints the heading, one line \<^verbatim>\<open>   - name\<close> for each missing file and no
  other file, in the order of the list, then the closing advice; it never reaches the bind
  of the port, and it returns normally.
\<close>

theorem main_missing_files:
  assumes "\<exists>f \<in> set required_files. \<not> exists pf f"
  shows "main pf =
           ([Print ([CHR 0xE2, CHR 0x9D, CHR 0x8C] @ '' Missing required files:'')]
              @ map (\<lambda>file. Print (''   - '' @ file))
                  (filter (\<lambda>f. \<not> exists pf f) required_files)
              @ [Print ([CHR 0x0A] @ ''Please ensure all files are in the current directory.'')],
            Returned)
         \<and> (\<forall>port. Bind port \<notin> set (fst (main pf)))"
proof -
  from assms have ne: "filter (\<lambda>f. \<not> exists pf f) required_files \<noteq> []"
    by (simp add: filter_empty_conv)
  show ?thesis
    using ne by (auto simp add: main_def Let_def)
qed

theorem main_missing_files_witness:
  "(\<exists>f \<in> set required_files.
      \<not> exists (example_platform (app_files(''sw.js'' := Missing, ''app.js'' := Missing)) None) f)
   \<and> main (example_platform (app_files(''sw.js'' := Missing, ''app.js'' := Missing)) None) =
       ([Print ([CHR 0xE2, CHR 0x9D, CHR 0x8C] @ '' Missing required files:''),
         Print ''   - app.js'',
         Print ''   - sw.js'',
         Print ([CHR 0x0A] @ ''Please ensure all files are in the current directory.'')],
        Returned)"
proof -
  have h: "\<exists>f \<in> set required_files.
      \<not> exists (example_platform (app_files(''sw.js'' := Missing, ''app.js'' := Missing)) None) f"
    by (simp add: required_files_def example_platform_def)
  show ?thesis
    using h main_missing_files [OF h]
    by (simp add: required_files_def example_platform_def app_files_def)
qed

text \<open>
  Claim C3. The handler of \<^verbatim>\<open>OSError\<close> prints the suggestion only when \<^verbatim>\<open>e.errno == 48\<close>,
  which the comment on that line reads as "Port already in use". 48 is the number of
  \<^verbatim>\<open>EADDRINUSE\<close> on macOS and the BSDs; on Linux it is 98. With all required files present
  and the bind failing with errno 98, \<open>main\<close> catches the error and returns, but it prints
  the general message with the error's text and not the suggestion.
\<close>

theorem main_port_in_use_errno_98:
  "main (example_platform app_files (Some (OSError 98 ''[Errno 98] Address already in use''))) =
     ([Print ([CHR 0xE2, CHR 0x9A, CHR 0xA0, CHR 0xEF, CHR 0xB8, CHR 0x8F]
                     @ ''  Warning: '' @ [CHR 0x27] @ ''icons'' @ [CHR 0x27]
                     @ '' directory not found. PWA icons may not load properly.'')]
        @ map Print banner
        @ [Bind 8000,
           Print ([CHR 0xE2, CHR 0x9D, CHR 0x8C]
                    @ '' Error starting server: [Errno 98] Address already in use'')],
      Returned)
   \<and> Print ''Try closing other applications or use a different port.''
         \<notin> set (fst (main (example_platform app_files
                              (Some (OSError 98 ''[Errno 98] Address already in use'')))))"
  by (simp add: main_def Let_def example_platform_def app_files_def required_files_def
        on_oserror_def PORT_def banner_def str_nat.simps rule_line)

text \<open>
  Where the bind fails with errno 48, the two lines of the suggestion are printed after the
  banner and \<open>main\<close> returns.
\<close>

lemma main_port_in_use_errno_48:
  "\<forall>f \<in> set required_files. exists pf f \<Longrightarrow> bind_error pf = Some (OSError 48 text) \<Longrightarrow>
   \<exists>before. main pf =
     (before @ [Bind PORT,
        Print ([CHR 0xE2, CHR 0x9D, CHR 0x8C] @ '' Port 8000 is already in use.''),
        Print ''Try closing other applications or use a different port.''],
      Returned)"
  by (simp add: main_def Let_def filter_empty_conv on_oserror_def str_nat_PORT)

section \<open>Requests\<close>

text \<open>
  Claim C4. \<^verbatim>\<open>do_GET\<close> on the path \<^verbatim>\<open>/\<close> ends in the same handler state, with the same bytes
  written to the connection (status line, header fields and body), as \<^verbatim>\<open>do_GET\<close> on the path
  \<^verbatim>\<open>/index.html\<close>, whatever the rest of the request and the platform are.
\<close>

theorem root_same_as_index:
  "do_GET e (s\<lparr>path := ''/''\<rparr>) = do_GET e (s\<lparr>path := ''/index.html''\<rparr>)"
  by (simp add: do_GET_def)










text \<open>
  Claim C2. \<^verbatim>\<open>do_GET\<close> sends \<^verbatim>\<open>Content-Type: application/manifest+json\<close> for
  \<^verbatim>\<open>/manifest.json\<close>, and \<^verbatim>\<open>end_headers\<close> then adds \<^verbatim>\<open>Content-Type: application/json\<close>,
  since the path ends with \<^verbatim>\<open>.json\<close>. With the file present the reply has status 200 and
  the file as its body, but it carries two content types that differ, the second one
  \<^verbatim>\<open>application/json\<close>.
\<close>

theorem manifest_two_content_types:
  "header_values ''Content-Type''
     (wfile (morning_routine_handler (example_env app_files)
        (new_request ''GET'' ''/manifest.json'' ''HTTP/1.1'')))
   = [''application/manifest+json'', ''application/json'']"
proof -
  have h: "''HTTP/1.1'' \<noteq> ''HTTP/0.9''" "fs (example_env app_files) ''manifest.json'' = File ''{}''"
    by (simp_all add: example_env_def app_files_def)
  show ?thesis
    unfolding manifest_present_wire [OF h]
    by (simp add: view_defs)
qed

text \<open>
  Claim C1. When \<^verbatim>\<open>sw.js\<close> is absent, \<^verbatim>\<open>do_GET\<close> calls \<^verbatim>\<open>send_error(404)\<close>, but only after it
  has sent \<^verbatim>\<open>send_response(200)\<close>, its two headers and \<^verbatim>\<open>end_headers()\<close>: the header section
  with status 200 is on the connection before the file is opened. In an empty working
  directory the reply to \<^verbatim>\<open>GET /sw.js HTTP/1.1\<close> reads as status 200, not 404, and its body is
  not empty: it is the whole 404 reply, status line, headers and error page.
\<close>

theorem sw_js_missing_reads_as_200:
  "resp_status (wfile (morning_routine_handler (example_env no_files)
      (new_request ''GET'' ''/sw.js'' ''HTTP/1.1''))) = Some 200
   \<and> resp_body (wfile (morning_routine_handler (example_env no_files)
      (new_request ''GET'' ''/sw.js'' ''HTTP/1.1''))) \<noteq> []"
proof -
  have h: "''HTTP/1.1'' \<noteq> ''HTTP/0.9''" "fs (example_env no_files) ''sw.js'' = Missing"
    by (simp_all add: example_env_def no_files_def)
  show ?thesis
    unfolding sw_js_missing_wire [OF h]
    by (simp add: resp_status_def resp_body_def render_def)
qed



text \<open>
  Claim C10, as the code has it. For a request method other than \<^verbatim>\<open>GET\<close> the handler runs
  the base class's code (\<^verbatim>\<open>do_HEAD\<close>, or the 501 error for an unsupported method) and leaves
  the path as it is: no rewrite of \<^verbatim>\<open>/\<close>, no hand-written reply. The overridden
  \<^verbatim>\<open>end_headers\<close> still applies: on a fresh connection the reply is the base class's reply
  with the four header lines, and the content type of the path's extension, added at the
  end of each header section.
\<close>

theorem other_methods_run_base_code:
  assumes "command s \<noteq> ''GET''"
  shows "morning_routine_handler e s
           = handle_method end_headers (simple_do_GET end_headers) e s
       \<and> path (morning_routine_handler e s) = path s
       \<and> (wfile s = [] \<longrightarrow>
            wfile (morning_routine_handler e s)
              = map (decorate (path s)) (wfile (simple_handler e s)))"
  using assms other_methods_path [OF assms] other_methods_wfile [OF assms]
  by (simp add: morning_routine_handler_def handle_method_def)

theorem other_methods_run_base_code_witness:
  "command (new_request ''HEAD'' ''/sw.js'' ''HTTP/1.1'') \<noteq> ''GET''
   \<and> wfile (new_request ''HEAD'' ''/sw.js'' ''HTTP/1.1'') = []
   \<and> path (morning_routine_handler (example_env app_files)
              (new_request ''HEAD'' ''/sw.js'' ''HTTP/1.1'')) = ''/sw.js''
   \<and> wfile (morning_routine_handler (example_env app_files)
               (new_request ''HEAD'' ''/sw.js'' ''HTTP/1.1'')) =
         [Head ([StatusLine ''HTTP/1.0'' 200 ''OK'',
                 HeaderLine ''Server'' ''SimpleHTTP/0.6 Python/3.12.3'',
                 HeaderLine ''Date'' ''Wed, 04 Nov 2026 09:00:00 GMT'',
                 HeaderLine ''Content-type'' ''text/javascript'',
                 HeaderLine ''Content-Length'' ''19'',
                 HeaderLine ''Last-Modified'' ''Tue, 03 Nov 2026 09:00:00 GMT'']
                @ pwa_headers
                @ [HeaderLine ''Content-Type'' ''application/javascript''])]"
proof -
  have h: "command (new_request ''HEAD'' ''/sw.js'' ''HTTP/1.1'') \<noteq> ''GET''"
    by simp
  have "path (morning_routine_handler (example_env app_files)
                (new_request ''HEAD'' ''/sw.js'' ''HTTP/1.1'')) = ''/sw.js''"
    and "wfile (morning_routine_handler (example_env app_files)
                 (new_request ''HEAD'' ''/sw.js'' ''HTTP/1.1''))
         = map (decorate ''/sw.js'')
             (wfile (simple_handler (example_env app_files)
                      (new_request ''HEAD'' ''/sw.js'' ''HTTP/1.1'')))"
    using other_methods_run_base_code [OF h, of "example_env app_files", THEN conjunct2]
    by simp_all
  then show ?thesis
    unfolding head_sw_js_base_wire
    using h by (simp add: decorate_def extension_header_def endswith_def)
qed

text \<open>
  Claim C10, as stated, fails: the reply to \<^verbatim>\<open>HEAD /sw.js\<close> is not the reply of the base class,
  which has none of the added header lines.
\<close>

theorem other_methods_counterexample:
  "wfile (morning_routine_handler (example_env app_files)
            (new_request ''HEAD'' ''/sw.js'' ''HTTP/1.1''))
   \<noteq> wfile (simple_handler (example_env app_files)
              (new_request ''HEAD'' ''/sw.js'' ''HTTP/1.1''))"
proof -
  have "wfile (morning_routine_handler (example_env app_files)
            (new_request ''HEAD'' ''/sw.js'' ''HTTP/1.1''))
        = map (decorate ''/sw.js'')
            (wfile (simple_handler (example_env app_files)
              (new_request ''HEAD'' ''/sw.js'' ''HTTP/1.1'')))"
    using other_methods_wfile [of "new_request ''HEAD'' ''/sw.js'' ''HTTP/1.1''"
            "example_env app_files"]
    by simp
  then show ?thesis
    unfolding head_sw_js_base_wire
    by (simp add: decorate_def pwa_headers_def)
qed

end
